theory Spec2Isabelle
  imports Main "HOL-Library.AList" "HOL-Library.Multiset"
begin

section \<open>The node modal of the JSON visualiser: values, rows and the host\<close>

text \<open>
  The development follows \<^verbatim>\<open>src/features/modals/NodeModal/index.tsx\<close>: the functions
  \<^verbatim>\<open>normalizeNodeData\<close>, \<^verbatim>\<open>parseEditedContent\<close>, \<^verbatim>\<open>updateJsonWithNodeValue\<close>,
  \<^verbatim>\<open>parseValueByType\<close> and the handler \<^verbatim>\<open>handleSave\<close>.

  A JavaScript value as the file meets it: what \<^verbatim>\<open>JSON.parse\<close> returns, and
  \<^verbatim>\<open>undefined\<close>, which a property read of a missing key gives. The code never computes
  with a number, it only hands numbers on, so the number type is a parameter \<open>'n\<close>.
  An object is the list of its own properties in property order; an array is the list of
  its elements, a hole being \<open>JUndefined\<close>.
\<close>

datatype 'n jsval =
    JUndefined
  | JNull
  | JBool bool
  | JNum 'n
  | JStr string
  | JArr "'n jsval list"
  | JObj "(string \<times> 'n jsval) list"

text \<open>A path segment is a string (an object key) or a non-negative integer (an array index).\<close>

datatype seg = Key string | Idx nat

text \<open>
  What the code throws: the host's \<^verbatim>\<open>SyntaxError\<close> (from \<^verbatim>\<open>JSON.parse\<close>), the host's
  \<^verbatim>\<open>TypeError\<close> (a property of \<^verbatim>\<open>undefined\<close> or \<^verbatim>\<open>null\<close>, an assignment to a property
  of a primitive in a module, which is strict code), and \<^verbatim>\<open>new Error(message)\<close>.
\<close>

datatype error = SyntaxError | TypeError | Error string

text \<open>
  What a piece of code does with its input: it returns a value, it throws, or it does
  something that JSON data and the three errors cannot express: it reads a name that is
  no own property of the value and that a prototype defines (a method, \<^verbatim>\<open>constructor\<close>,
  \<^verbatim>\<open>__proto__\<close>) or that is \<^verbatim>\<open>length\<close>; it assigns to \<^verbatim>\<open>length\<close> of an array; or it assigns
  to \<^verbatim>\<open>__proto__\<close> on a value that has no such key of its own. The model follows the code up
  to such a step and answers \<open>Beyond\<close> there; nothing is proved about what the code does
  from then on.
\<close>

datatype 'a outcome = Value 'a | Thrown error | Beyond

text \<open>
  \<^verbatim>\<open>NodeRow\<close> and \<^verbatim>\<open>NodeData\<close> are declared outside the file; the fields the file reads are
  \<^verbatim>\<open>key\<close>, \<^verbatim>\<open>value\<close>, \<^verbatim>\<open>type\<close> of a row and \<^verbatim>\<open>text\<close>, \<^verbatim>\<open>path\<close> of a node. A row without
  a key has \<open>key = None\<close>. A node without a path has the empty path: every use in the file
  (\<^verbatim>\<open>!path || path.length === 0\<close>, \<^verbatim>\<open>nodeData?.path ?? []\<close>) treats the two alike.
\<close>

record 'n NodeRow =
  key :: "string option"
  value' :: "'n jsval"
  type :: string

record 'n NodeData =
  text' :: "'n NodeRow list"
  path :: "seg list"

text \<open>
  The built-ins of the host that the file calls. \<open>JSON_parse\<close> answers \<open>None\<close> where
  \<^verbatim>\<open>JSON.parse\<close> throws; \<open>JSON_stringify v\<close> is \<^verbatim>\<open>JSON.stringify(v, null, 2)\<close>;
  \<open>Number\<close> is \<^verbatim>\<open>Number(v)\<close>; \<open>ToString\<close> is the conversion of a template literal
  \<^verbatim>\<open>`${v}`\<close>; \<open>inherits k\<close> says that \<open>k\<close> names a property of one of the prototypes that
  JSON data inherits from (\<^verbatim>\<open>Object.prototype\<close>, \<^verbatim>\<open>Array.prototype\<close>, \<^verbatim>\<open>String.prototype\<close>,
  \<^verbatim>\<open>Number.prototype\<close>, \<^verbatim>\<open>Boolean.prototype\<close>). The result of \<open>JSON_stringify\<close> has the
  type the file declares for it, \<^verbatim>\<open>string\<close>; that \<^verbatim>\<open>JSON.stringify(undefined)\<close> is
  \<^verbatim>\<open>undefined\<close> and no text is not modelled. The theorems below hold for every host;
  \<open>js_host\<close> further down is one to evaluate with.
\<close>

record 'n host =
  JSON_parse :: "string \<Rightarrow> 'n jsval option"
  JSON_stringify :: "'n jsval \<Rightarrow> string"
  Number :: "'n jsval \<Rightarrow> 'n"
  ToString :: "'n jsval \<Rightarrow> string"
  inherits :: "string \<Rightarrow> bool"

subsection \<open>Property keys\<close>

text \<open>
  A number used as a property key is converted to its decimal string; a string that is a
  canonical array index (decimal, no leading zero, below \<open>2^32 - 1\<close>) addresses the element
  of an array, and as a key of an object it is listed before the keys that are no
  indices, in ascending order.
\<close>

definition digit_char :: "nat \<Rightarrow> char" where
  "digit_char d = ''0123456789'' ! d"

function string_of_nat :: "nat \<Rightarrow> string" where
  "string_of_nat n =
     (if n < 10 then [digit_char n] else string_of_nat (n div 10) @ [digit_char (n mod 10)])"
  by pat_completeness auto
termination
  by (relation "measure id") auto

declare string_of_nat.simps [simp del]

definition digit_value :: "char \<Rightarrow> int option" where
  "digit_value c = map_of (zip ''0123456789'' [0, 1, 2, 3, 4, 5, 6, 7, 8, 9]) c"

fun decimal :: "int \<Rightarrow> string \<Rightarrow> int option" where
  "decimal acc [] = Some acc"
| "decimal acc (c # cs) =
     (case digit_value c of None \<Rightarrow> None | Some d \<Rightarrow> decimal (10 * acc + d) cs)"

definition array_index_of_key :: "string \<Rightarrow> nat option" where
  "array_index_of_key s =
     (if s = [] \<or> (hd s = CHR ''0'' \<and> s \<noteq> ''0'') then None
      else case decimal 0 s of
             None \<Rightarrow> None
           | Some n \<Rightarrow> if n < 4294967295 then Some (nat n) else None)"

fun propertyKey :: "seg \<Rightarrow> string" where
  "propertyKey (Key s) = s"
| "propertyKey (Idx n) = string_of_nat n"

fun arrayIndex :: "seg \<Rightarrow> nat option" where
  "arrayIndex (Key s) = array_index_of_key s"
| "arrayIndex (Idx n) = (if int n < 4294967295 then Some n else None)"

subsection \<open>Objects as lists of properties\<close>

text \<open>
  An object is the list of its own properties in the order in which the host lists them
  (\<^verbatim>\<open>Object.entries\<close>, \<^verbatim>\<open>JSON.stringify\<close>, the spread): the keys that are array indices
  first, in ascending order, then the other keys in the order of their creation.
  \<open>defineProperty\<close> creates or overwrites an own property, as \<^verbatim>\<open>JSON.parse\<close> and the spread
  do: an existing key keeps its place, a new index goes to its place among the indices, any
  other new key to the end.
\<close>

fun insertIndex :: "nat \<Rightarrow> string \<times> 'a \<Rightarrow> (string \<times> 'a) list \<Rightarrow> (string \<times> 'a) list" where
  "insertIndex i e [] = [e]"
| "insertIndex i e (p # ps) =
     (case array_index_of_key (fst p) of
        None \<Rightarrow> e # p # ps
      | Some j \<Rightarrow> if i < j then e # p # ps else p # insertIndex i e ps)"

definition defineProperty :: "string \<Rightarrow> 'a \<Rightarrow> (string \<times> 'a) list \<Rightarrow> (string \<times> 'a) list" where
  "defineProperty k v kvs =
     (if map_of kvs k \<noteq> None then AList.update k v kvs
      else case array_index_of_key k of
             None \<Rightarrow> kvs @ [(k, v)]
           | Some i \<Rightarrow> insertIndex i (k, v) kvs)"

text \<open>
  The assignment \<^verbatim>\<open>obj[k] = v\<close> on an object: it overwrites an own property and creates
  one that is missing, except for \<^verbatim>\<open>__proto__\<close>, where the assignment to a missing key goes
  to the setter of the prototype: \<open>None\<close>, beyond the model.
\<close>

definition assignProperty :: "string \<Rightarrow> 'a \<Rightarrow> (string \<times> 'a) list \<Rightarrow> (string \<times> 'a) list option" where
  "assignProperty k v kvs =
     (if map_of kvs k \<noteq> None then Some (AList.update k v kvs)
      else if k = ''__proto__'' then None
      else Some (defineProperty k v kvs))"

subsection \<open>Property access\<close>

text \<open>
  The own data properties of a value: the keys of an object, the elements of an array, the
  characters of a string.
\<close>

fun ownProp :: "'n jsval \<Rightarrow> seg \<Rightarrow> 'n jsval option" where
  "ownProp (JObj kvs) s = map_of kvs (propertyKey s)"
| "ownProp (JArr xs) s =
     (case arrayIndex s of
        None \<Rightarrow> None
      | Some i \<Rightarrow> if i < length xs then Some (xs ! i) else None)"
| "ownProp (JStr cs) s =
     (case arrayIndex s of
        None \<Rightarrow> None
      | Some i \<Rightarrow> if i < length cs then Some (JStr [cs ! i]) else None)"
| "ownProp v s = None"

text \<open>
  The names whose read goes beyond the own data properties: what the prototypes define,
  \<^verbatim>\<open>__proto__\<close> among them, and \<^verbatim>\<open>length\<close>. They are set aside for every kind of value
  alike, also where the value inherits nothing under the name.
\<close>

definition special :: "'n host \<Rightarrow> string \<Rightarrow> bool" where
  "special h k = (inherits h k \<or> k = ''length'' \<or> k = ''__proto__'')"

definition nullish :: "'n jsval \<Rightarrow> bool" where
  "nullish v = (v = JUndefined \<or> v = JNull)"

text \<open>
  \<open>readProp h v s\<close> is \<^verbatim>\<open>v[s]\<close> for a value that is neither \<^verbatim>\<open>undefined\<close> nor \<^verbatim>\<open>null\<close>: the
  own property, else \<^verbatim>\<open>undefined\<close>, unless the name is a special one: \<open>None\<close>, beyond the
  model.
\<close>

definition readProp :: "'n host \<Rightarrow> 'n jsval \<Rightarrow> seg \<Rightarrow> 'n jsval option" where
  "readProp h v s =
     (case ownProp v s of
        Some x \<Rightarrow> Some x
      | None \<Rightarrow> if special h (propertyKey s) then None else Some JUndefined)"

text \<open>\<^verbatim>\<open>current[s]\<close>: a \<^verbatim>\<open>TypeError\<close> on \<^verbatim>\<open>undefined\<close> and \<^verbatim>\<open>null\<close>.\<close>

definition getProp :: "'n host \<Rightarrow> 'n jsval \<Rightarrow> seg \<Rightarrow> 'n jsval outcome" where
  "getProp h current s =
     (if nullish current then Thrown TypeError
      else case readProp h current s of None \<Rightarrow> Beyond | Some v \<Rightarrow> Value v)"

text \<open>\<^verbatim>\<open>current?.[s]\<close>: \<^verbatim>\<open>undefined\<close> on \<^verbatim>\<open>undefined\<close> and \<^verbatim>\<open>null\<close>; \<open>None\<close> is beyond the model.\<close>

definition optProp :: "'n host \<Rightarrow> 'n jsval \<Rightarrow> seg \<Rightarrow> 'n jsval option" where
  "optProp h current s = (if nullish current then Some JUndefined else readProp h current s)"

text \<open>
  \<^verbatim>\<open>current[s] = v\<close>, returning \<open>current\<close> as it is afterwards. On \<^verbatim>\<open>undefined\<close> and
  \<^verbatim>\<open>null\<close> the assignment throws. An object is assigned to as above. An array gets the
  element overwritten, or is extended with holes up to the index; a key that is no index
  becomes a property of the array that \<^verbatim>\<open>JSON.stringify\<close> does not print, so the array is as
  it was, except for \<^verbatim>\<open>length\<close>, which truncates or extends the array or throws a
  \<^verbatim>\<open>RangeError\<close>, and \<^verbatim>\<open>__proto__\<close>, which goes to the setter: both beyond the model. On a
  boolean, a number and a string the assignment throws, the module being strict code,
  except again for \<^verbatim>\<open>__proto__\<close>, where the setter is called and returns.
\<close>

fun setProp :: "'n jsval \<Rightarrow> seg \<Rightarrow> 'n jsval \<Rightarrow> 'n jsval outcome" where
  "setProp JUndefined s v = Thrown TypeError"
| "setProp JNull s v = Thrown TypeError"
| "setProp (JObj kvs) s v =
     (case assignProperty (propertyKey s) v kvs of
        None \<Rightarrow> Beyond
      | Some kvs' \<Rightarrow> Value (JObj kvs'))"
| "setProp (JArr xs) s v =
     (case arrayIndex s of
        None \<Rightarrow>
          if propertyKey s = ''length'' \<or> propertyKey s = ''__proto__'' then Beyond
          else Value (JArr xs)
      | Some i \<Rightarrow>
          Value (JArr (if i < length xs then xs[i := v]
                       else xs @ replicate (i - length xs) JUndefined @ [v])))"
| "setProp current s v = (if propertyKey s = ''__proto__'' then Beyond else Thrown TypeError)"

text \<open>
  \<^verbatim>\<open>Object.entries(v)\<close>: the own enumerable properties, \<open>None\<close> where it throws. The
  spread \<^verbatim>\<open>{ ...v }\<close> copies the same properties.
\<close>

definition indexed :: "'a list \<Rightarrow> (string \<times> 'a) list" where
  "indexed xs = zip (map string_of_nat [0..<length xs]) xs"

fun Object_entries :: "'n jsval \<Rightarrow> (string \<times> 'n jsval) list option" where
  "Object_entries JUndefined = None"
| "Object_entries JNull = None"
| "Object_entries (JObj kvs) = Some kvs"
| "Object_entries (JArr xs) = Some (indexed xs)"
| "Object_entries (JStr cs) = Some (indexed (map (\<lambda>c. JStr [c]) cs))"
| "Object_entries v = Some []"

definition spread :: "'n jsval \<Rightarrow> (string \<times> 'n jsval) list" where
  "spread v = (case Object_entries v of None \<Rightarrow> [] | Some es \<Rightarrow> es)"

text \<open>\<^verbatim>\<open>v && typeof v === "object"\<close>: true of objects and of arrays, false of \<^verbatim>\<open>null\<close>.\<close>

fun truthyObject :: "'n jsval \<Rightarrow> bool" where
  "truthyObject (JObj kvs) = True"
| "truthyObject (JArr xs) = True"
| "truthyObject v = False"

text \<open>\<^verbatim>\<open>row.key\<close> as a condition: the key when it is a non-empty string.\<close>

definition truthyKey :: "'n NodeRow \<Rightarrow> string option" where
  "truthyKey row = (case key row of None \<Rightarrow> None | Some k \<Rightarrow> if k = [] then None else Some k)"

text \<open>\<^verbatim>\<open>rows.length === 1 && !rows[0].key\<close>\<close>

fun singleValue :: "'n NodeRow list \<Rightarrow> bool" where
  "singleValue [row] = (truthyKey row = None)"
| "singleValue rows = False"

section \<open>The functions of the modal\<close>

subsection \<open>\<^verbatim>\<open>parseValueByType\<close>\<close>

definition parseValueByType :: "'n host \<Rightarrow> 'n jsval \<Rightarrow> string \<Rightarrow> 'n jsval" where
  "parseValueByType h v t =
     (if v = JNull \<or> v = JStr ''null'' then JNull
      else if t = ''boolean'' then JBool (v = JBool True \<or> v = JStr ''true'' \<or> v = JStr ''1'')
      else if t = ''number'' then JNum (Number h v)
      else if t = ''object'' \<or> t = ''array'' then v
      else v)"

text \<open>The same function in the earlier snapshot of the file (\<^verbatim>\<open>src/unnamed/part_000\<close>).\<close>

definition parseValueByType_earlier :: "'n host \<Rightarrow> 'n jsval \<Rightarrow> string \<Rightarrow> 'n jsval" where
  "parseValueByType_earlier h v t =
     (if v = JNull \<or> v = JStr ''null'' then JNull
      else if t = ''boolean'' then JBool (v = JStr ''true'' \<or> v = JStr ''1'')
      else if t = ''number'' then JNum (Number h v)
      else v)"

subsection \<open>\<^verbatim>\<open>normalizeNodeData\<close>\<close>

text \<open>
  The \<^verbatim>\<open>forEach\<close> that fills \<^verbatim>\<open>obj\<close>: a row whose type is neither \<^verbatim>\<open>array\<close> nor \<^verbatim>\<open>object\<close>
  and whose key is a non-empty string is assigned, \<^verbatim>\<open>obj[row.key] = row.value\<close>.
\<close>

definition normalizeStep ::
  "(string \<times> 'n jsval) list \<Rightarrow> 'n NodeRow \<Rightarrow> (string \<times> 'n jsval) list option" where
  "normalizeStep obj row =
     (if type row \<noteq> ''array'' \<and> type row \<noteq> ''object'' then
        (case truthyKey row of None \<Rightarrow> Some obj | Some k \<Rightarrow> assignProperty k (value' row) obj)
      else Some obj)"

fun normalizeRows ::
  "(string \<times> 'n jsval) list \<Rightarrow> 'n NodeRow list \<Rightarrow> (string \<times> 'n jsval) list option" where
  "normalizeRows obj [] = Some obj"
| "normalizeRows obj (row # rows) =
     (case normalizeStep obj row of None \<Rightarrow> None | Some obj' \<Rightarrow> normalizeRows obj' rows)"

text \<open>The text, or \<open>None\<close> where the \<^verbatim>\<open>forEach\<close> goes beyond the model.\<close>

definition normalizeNodeData :: "'n host \<Rightarrow> 'n NodeRow list \<Rightarrow> string option" where
  "normalizeNodeData h nodeRows =
     (if nodeRows = [] then Some ''{}''
      else if singleValue nodeRows then Some (ToString h (value' (hd nodeRows)))
      else map_option (\<lambda>obj. JSON_stringify h (JObj obj)) (normalizeRows [] nodeRows))"

subsection \<open>\<^verbatim>\<open>parseEditedContent\<close>\<close>

definition inferType :: "'n NodeRow list \<Rightarrow> string \<Rightarrow> 'n jsval \<Rightarrow> string" where
  "inferType originalRows k v =
     (let original = find (\<lambda>row. key row = Some k) originalRows;
          inferredType =
            (case original of
               None \<Rightarrow> ''string''
             | Some row \<Rightarrow> if type row = [] then ''string'' else type row)
      in case v of
           JArr xs \<Rightarrow> ''array''
         | JObj kvs \<Rightarrow> ''object''
         | JBool b \<Rightarrow> ''boolean''
         | JNum n \<Rightarrow> ''number''
         | _ \<Rightarrow> inferredType)"

text \<open>
  Every exception inside the \<^verbatim>\<open>try\<close>, the \<^verbatim>\<open>SyntaxError\<close> of \<^verbatim>\<open>JSON.parse\<close> and the
  \<^verbatim>\<open>TypeError\<close> of \<^verbatim>\<open>Object.entries(null)\<close>, is rethrown as \<^verbatim>\<open>Error("Invalid JSON format")\<close>.
  The function reads and assigns no property of a value, so it returns or throws.
\<close>

definition parseEditedContent ::
  "'n host \<Rightarrow> string \<Rightarrow> 'n NodeRow list \<Rightarrow> error + 'n NodeRow list" where
  "parseEditedContent h content originalRows =
     (case JSON_parse h content of
        None \<Rightarrow> Inl (Error ''Invalid JSON format'')
      | Some parsed \<Rightarrow>
          if singleValue originalRows then Inr [(hd originalRows)\<lparr>value' := parsed\<rparr>]
          else (case Object_entries parsed of
                  None \<Rightarrow> Inl (Error ''Invalid JSON format'')
                | Some entries \<Rightarrow>
                    Inr (map (\<lambda>(k, v). \<lparr>key = Some k, value' = v,
                                         type = inferType originalRows k v\<rparr>) entries)))"

subsection \<open>\<^verbatim>\<open>updateJsonWithNodeValue\<close>\<close>

text \<open>The \<^verbatim>\<open>forEach\<close> of both merge branches: \<^verbatim>\<open>if (row.key) obj[row.key] = parseValueByType(row.value, row.type)\<close>.\<close>

definition mergeStep ::
  "'n host \<Rightarrow> (string \<times> 'n jsval) list \<Rightarrow> 'n NodeRow \<Rightarrow> (string \<times> 'n jsval) list option" where
  "mergeStep h obj row =
     (case truthyKey row of
        None \<Rightarrow> Some obj
      | Some k \<Rightarrow> assignProperty k (parseValueByType h (value' row) (type row)) obj)"

fun mergeRows ::
  "'n host \<Rightarrow> (string \<times> 'n jsval) list \<Rightarrow> 'n NodeRow list \<Rightarrow> (string \<times> 'n jsval) list option" where
  "mergeRows h obj [] = Some obj"
| "mergeRows h obj (row # newValue) =
     (case mergeStep h obj row of None \<Rightarrow> None | Some obj' \<Rightarrow> mergeRows h obj' newValue)"

text \<open>\<^verbatim>\<open>existing && typeof existing === "object" ? { ...existing } : {}\<close>\<close>

definition existingOrEmpty :: "'n jsval \<Rightarrow> (string \<times> 'n jsval) list" where
  "existingOrEmpty existing = (if truthyObject existing then spread existing else [])"

text \<open>The update of the target, \<^verbatim>\<open>current\<close> being the parent and \<^verbatim>\<open>lastKey\<close> the last segment.\<close>

definition updateTarget ::
  "'n host \<Rightarrow> 'n NodeRow list \<Rightarrow> 'n jsval \<Rightarrow> seg \<Rightarrow> 'n jsval outcome" where
  "updateTarget h newValue current lastKey =
     (if singleValue newValue then
        setProp current lastKey
          (parseValueByType h (value' (hd newValue)) (type (hd newValue)))
      else
        (case getProp h current lastKey of
           Thrown e \<Rightarrow> Thrown e
         | Beyond \<Rightarrow> Beyond
         | Value existing \<Rightarrow>
             (case mergeRows h (existingOrEmpty existing) newValue of
                None \<Rightarrow> Beyond
              | Some obj \<Rightarrow> setProp current lastKey (JObj obj))))"

text \<open>
  The navigation loop \<^verbatim>\<open>current = current[path[i]]\<close> followed by the assignment at
  \<^verbatim>\<open>lastKey\<close>. The loop walks references into \<^verbatim>\<open>parsed\<close> and the assignment mutates the
  parent in place; \<^verbatim>\<open>parsed\<close> is a tree fresh from \<^verbatim>\<open>JSON.parse\<close>, nothing in it is shared,
  so what \<^verbatim>\<open>parsed\<close> is afterwards is the value rebuilt along the path. \<open>navigate\<close> returns
  that value; the recursion is on the segments after the current one.
\<close>

fun navigate ::
  "'n host \<Rightarrow> ('n jsval \<Rightarrow> seg \<Rightarrow> 'n jsval outcome) \<Rightarrow> 'n jsval \<Rightarrow> seg \<Rightarrow> seg list \<Rightarrow> 'n jsval outcome" where
  "navigate h assign current s [] = assign current s"
| "navigate h assign current s (s' # rest) =
     (case getProp h current s of
        Thrown e \<Rightarrow> Thrown e
      | Beyond \<Rightarrow> Beyond
      | Value next \<Rightarrow>
          (case navigate h assign next s' rest of
             Thrown e \<Rightarrow> Thrown e
           | Beyond \<Rightarrow> Beyond
           | Value next' \<Rightarrow> setProp current s next'))"

text \<open>
  The body of the \<^verbatim>\<open>try\<close> between \<^verbatim>\<open>JSON.parse(json)\<close> and the \<^verbatim>\<open>JSON.stringify\<close> of the
  three \<^verbatim>\<open>return\<close>s: the value that is serialised.
\<close>

definition updatedValue ::
  "'n host \<Rightarrow> 'n jsval \<Rightarrow> seg list \<Rightarrow> 'n NodeRow list \<Rightarrow> 'n jsval outcome" where
  "updatedValue h parsed p newValue =
     (case p of
        [] \<Rightarrow>
          if singleValue newValue then Value (value' (hd newValue))
          else (case mergeRows h (spread (if truthyObject parsed then parsed else JObj []))
                       newValue of
                  None \<Rightarrow> Beyond
                | Some obj \<Rightarrow> Value (JObj obj))
      | s # rest \<Rightarrow> navigate h (updateTarget h newValue) parsed s rest)"

text \<open>The \<^verbatim>\<open>catch\<close> logs the error and throws it again unchanged.\<close>

definition updateJsonWithNodeValue ::
  "'n host \<Rightarrow> string \<Rightarrow> seg list \<Rightarrow> 'n NodeRow list \<Rightarrow> string outcome" where
  "updateJsonWithNodeValue h json p newValue =
     (case JSON_parse h json of
        None \<Rightarrow> Thrown SyntaxError
      | Some parsed \<Rightarrow>
          (case updatedValue h parsed p newValue of
             Thrown e \<Rightarrow> Thrown e
           | Beyond \<Rightarrow> Beyond
           | Value v \<Rightarrow> Value (JSON_stringify h v)))"

subsection \<open>The resolver of \<^verbatim>\<open>normalizedContent\<close>\<close>

text \<open>
  The loop \<^verbatim>\<open>current = current?.[path[i]]\<close> over the whole path; \<open>None\<close> where a read
  goes beyond the model.
\<close>

fun resolve :: "'n host \<Rightarrow> 'n jsval \<Rightarrow> seg list \<Rightarrow> 'n jsval option" where
  "resolve h current [] = Some current"
| "resolve h current (s # p) =
     (case optProp h current s of None \<Rightarrow> None | Some next \<Rightarrow> resolve h next p)"

subsection \<open>\<^verbatim>\<open>normalizedContent\<close> and \<^verbatim>\<open>handleSave\<close>\<close>

text \<open>
  The state the handler reads and writes: the selected node and the nodes of the graph
  store, the document of the JSON store, the contents of the file store, the two state
  variables of the component and the notifications shown. What \<^verbatim>\<open>setGraph\<close> makes of a
  document is the graph store's business: the nodes it leaves are a parameter. Both
  functions answer \<open>None\<close> where a step of theirs goes beyond the model.
\<close>

datatype toast = ToastSuccess string | ToastError error

record 'n modal =
  selectedNode :: "'n NodeData option"
  nodes :: "'n NodeData list"
  json :: string
  contents :: string
  isEditing :: bool
  editedContent :: string
  toasts :: "toast list"

definition normalizedContent :: "'n host \<Rightarrow> 'n modal \<Rightarrow> string option" where
  "normalizedContent h st =
     (case selectedNode st of
        None \<Rightarrow> Some ''{}''
      | Some nodeData \<Rightarrow>
          (case JSON_parse h (json st) of
             None \<Rightarrow> normalizeNodeData h (text' nodeData)
           | Some parsed \<Rightarrow>
               (case resolve h parsed (path nodeData) of
                  None \<Rightarrow> None
                | Some current \<Rightarrow>
                    if current \<noteq> JUndefined then Some (JSON_stringify h current)
                    else normalizeNodeData h (text' nodeData))))"

definition handleSave ::
  "'n host \<Rightarrow> (string \<Rightarrow> 'n NodeData list) \<Rightarrow> 'n modal \<Rightarrow> 'n modal option" where
  "handleSave h setGraph st =
     (let originalRows = (case selectedNode st of None \<Rightarrow> [] | Some nodeData \<Rightarrow> text' nodeData);
          p = (case selectedNode st of None \<Rightarrow> [] | Some nodeData \<Rightarrow> path nodeData)
      in case parseEditedContent h (editedContent st) originalRows of
           Inl e \<Rightarrow> Some (st\<lparr>toasts := toasts st @ [ToastError e]\<rparr>)
         | Inr newNodeRows \<Rightarrow>
             (case updateJsonWithNodeValue h (json st) p newNodeRows of
                Thrown e \<Rightarrow> Some (st\<lparr>toasts := toasts st @ [ToastError e]\<rparr>)
              | Beyond \<Rightarrow> None
              | Value updatedJson \<Rightarrow>
                  (let allNodes = setGraph updatedJson;
                       matched = find (\<lambda>n. path n = p) allNodes
                   in Some (st\<lparr>json := updatedJson,
                               contents := updatedJson,
                               nodes := allNodes,
                               selectedNode := (case matched of None \<Rightarrow> selectedNode st | Some n \<Rightarrow> Some n),
                               toasts := toasts st @ [ToastSuccess ''Node value updated!''],
                               isEditing := False\<rparr>))))"

section \<open>A host to evaluate with\<close>

text \<open>
  \<open>js_host\<close> stands for the JavaScript engine on ASCII texts whose numbers are integers:
  it reads and prints JSON as \<^verbatim>\<open>JSON.parse\<close> and \<^verbatim>\<open>JSON.stringify(v, null, 2)\<close> do there.
  It is used at concrete texts only. A number with a fraction or an exponent and a
  \<^verbatim>\<open>\u\<close> escape are beyond it (it answers \<open>None\<close> for them), and it holds an integer
  exactly, however large. Its inherited names are those of ECMAScript 2024.
\<close>

datatype jsnumber = NaN | Integer int

definition is_ws :: "char \<Rightarrow> bool" where
  "is_ws c = (c = CHR '' '' \<or> c = CHR 0x09 \<or> c = CHR 0x0A \<or> c = CHR 0x0D)"

definition skip_ws :: "string \<Rightarrow> string" where
  "skip_ws s = dropWhile is_ws s"

definition is_digit :: "char \<Rightarrow> bool" where
  "is_digit c = (digit_value c \<noteq> None)"

definition unescape :: "char \<Rightarrow> char option" where
  "unescape e =
     map_of [(CHR 0x22, CHR 0x22), (CHR 0x5C, CHR 0x5C), (CHR ''/'', CHR ''/''),
             (CHR ''b'', CHR 0x08), (CHR ''f'', CHR 0x0C), (CHR ''n'', CHR 0x0A),
             (CHR ''r'', CHR 0x0D), (CHR ''t'', CHR 0x09)] e"

text \<open>The characters of a string after its opening quote, and the text after the closing one.\<close>

fun js_string_chars :: "string \<Rightarrow> (string \<times> string) option" where
  "js_string_chars [] = None"
| "js_string_chars [c] = (if c = CHR 0x22 then Some ([], []) else None)"
| "js_string_chars (c # e # cs) =
     (if c = CHR 0x22 then Some ([], e # cs)
      else if c = CHR 0x5C then
        (case unescape e of
           None \<Rightarrow> None
         | Some d \<Rightarrow> map_option (\<lambda>(s, r). (d # s, r)) (js_string_chars cs))
      else if (of_char c :: nat) < 32 then None
      else map_option (\<lambda>(s, r). (c # s, r)) (js_string_chars (e # cs)))"

definition js_number :: "string \<Rightarrow> (jsnumber jsval \<times> string) option" where
  "js_number s =
     (let negative = (s \<noteq> [] \<and> hd s = CHR ''-'');
          r = (if negative then tl s else s);
          ds = takeWhile is_digit r;
          rest = dropWhile is_digit r
      in if ds = [] \<or> (hd ds = CHR ''0'' \<and> length ds > 1) then None
         else if rest \<noteq> [] \<and> hd rest \<in> {CHR ''.'', CHR ''e'', CHR ''E''} then None
         else (case decimal 0 ds of
                 None \<Rightarrow> None
               | Some n \<Rightarrow> Some (JNum (Integer (if negative then - n else n)), rest)))"

definition js_literal :: "string \<Rightarrow> (jsnumber jsval \<times> string) option" where
  "js_literal s =
     (if take 4 s = ''true'' then Some (JBool True, drop 4 s)
      else if take 5 s = ''false'' then Some (JBool False, drop 5 s)
      else if take 4 s = ''null'' then Some (JNull, drop 4 s)
      else js_number s)"

text \<open>
  The members become own properties one after the other: a duplicate key keeps its place
  and takes the last value, and the keys come in the host's order.
\<close>

definition js_object :: "(string \<times> jsnumber jsval) list \<Rightarrow> jsnumber jsval" where
  "js_object members = JObj (foldl (\<lambda>obj (k, v). defineProperty k v obj) [] members)"

text \<open>
  Recursive descent, with fuel for the nesting: \<open>js_value\<close> reads a value, \<open>js_elements\<close>
  the elements of an array up to its bracket, \<open>js_members\<close> the members of an object up to
  its brace.
\<close>

fun js_value :: "nat \<Rightarrow> string \<Rightarrow> (jsnumber jsval \<times> string) option"
  and js_elements :: "nat \<Rightarrow> string \<Rightarrow> (jsnumber jsval list \<times> string) option"
  and js_members :: "nat \<Rightarrow> string \<Rightarrow> ((string \<times> jsnumber jsval) list \<times> string) option" where
  "js_value 0 s = None"
| "js_value (Suc n) s =
     (case skip_ws s of
        [] \<Rightarrow> None
      | c # cs \<Rightarrow>
          if c = CHR ''{'' then
            (if take 1 (skip_ws cs) = ''}'' then Some (JObj [], drop 1 (skip_ws cs))
             else map_option (\<lambda>(ms, r). (js_object ms, r)) (js_members n cs))
          else if c = CHR ''['' then
            (if take 1 (skip_ws cs) = '']'' then Some (JArr [], drop 1 (skip_ws cs))
             else map_option (\<lambda>(vs, r). (JArr vs, r)) (js_elements n cs))
          else if c = CHR 0x22 then map_option (\<lambda>(t, r). (JStr t, r)) (js_string_chars cs)
          else js_literal (c # cs))"
| "js_elements 0 s = None"
| "js_elements (Suc n) s =
     (case js_value n s of
        None \<Rightarrow> None
      | Some (v, r) \<Rightarrow>
          (case skip_ws r of
             [] \<Rightarrow> None
           | c # r' \<Rightarrow>
               if c = CHR '','' then map_option (\<lambda>(vs, r''). (v # vs, r'')) (js_elements n r')
               else if c = CHR '']'' then Some ([v], r')
               else None))"
| "js_members 0 s = None"
| "js_members (Suc n) s =
     (case skip_ws s of
        [] \<Rightarrow> None
      | c # cs \<Rightarrow>
          if c \<noteq> CHR 0x22 then None
          else (case js_string_chars cs of
                  None \<Rightarrow> None
                | Some (k, r) \<Rightarrow>
                    (case skip_ws r of
                       [] \<Rightarrow> None
                     | c' # r' \<Rightarrow>
                         if c' \<noteq> CHR '':'' then None
                         else (case js_value n r' of
                                 None \<Rightarrow> None
                               | Some (v, r'') \<Rightarrow>
                                   (case skip_ws r'' of
                                      [] \<Rightarrow> None
                                    | d # r3 \<Rightarrow>
                                        if d = CHR '','' then
                                          map_option (\<lambda>(ms, r4). ((k, v) # ms, r4)) (js_members n r3)
                                        else if d = CHR ''}'' then Some ([(k, v)], r3)
                                        else None)))))"

definition js_parse :: "string \<Rightarrow> jsnumber jsval option" where
  "js_parse s =
     (case js_value (2 * length s + 2) s of
        None \<Rightarrow> None
      | Some (v, r) \<Rightarrow> if skip_ws r = [] then Some v else None)"

text \<open>Printing: a string in quotes with its escapes, an integer in decimal digits.\<close>

definition hex_digit :: "nat \<Rightarrow> char" where
  "hex_digit d = ''0123456789abcdef'' ! d"

definition escape :: "char \<Rightarrow> string" where
  "escape c =
     (if c = CHR 0x22 then [CHR 0x5C, CHR 0x22]
      else if c = CHR 0x5C then [CHR 0x5C, CHR 0x5C]
      else if c = CHR 0x08 then [CHR 0x5C, CHR ''b'']
      else if c = CHR 0x0C then [CHR 0x5C, CHR ''f'']
      else if c = CHR 0x0A then [CHR 0x5C, CHR ''n'']
      else if c = CHR 0x0D then [CHR 0x5C, CHR ''r'']
      else if c = CHR 0x09 then [CHR 0x5C, CHR ''t'']
      else if (of_char c :: nat) < 32 then
        [CHR 0x5C, CHR ''u'', CHR ''0'', CHR ''0'', hex_digit (of_char c div 16), hex_digit (of_char c mod 16)]
      else [c])"

definition quote :: "string \<Rightarrow> string" where
  "quote t = [CHR 0x22] @ concat (map escape t) @ [CHR 0x22]"

definition integer_text :: "int \<Rightarrow> string" where
  "integer_text i = (if i < 0 then CHR ''-'' # string_of_nat (nat (- i)) else string_of_nat (nat i))"

text \<open>
  \<open>js_text ind v\<close> prints \<open>v\<close> at the indentation \<open>ind\<close>, two spaces more for each level.
  \<^verbatim>\<open>NaN\<close>, and \<^verbatim>\<open>undefined\<close> or a hole in an array, print as \<^verbatim>\<open>null\<close>; a property whose
  value is \<^verbatim>\<open>undefined\<close> is left out.
\<close>

fun js_text :: "string \<Rightarrow> jsnumber jsval \<Rightarrow> string"
  and js_items :: "string \<Rightarrow> jsnumber jsval list \<Rightarrow> string"
  and js_props :: "string \<Rightarrow> (string \<times> jsnumber jsval) list \<Rightarrow> string" where
  "js_text ind JUndefined = ''null''"
| "js_text ind JNull = ''null''"
| "js_text ind (JBool b) = (if b then ''true'' else ''false'')"
| "js_text ind (JNum NaN) = ''null''"
| "js_text ind (JNum (Integer i)) = integer_text i"
| "js_text ind (JStr t) = quote t"
| "js_text ind (JArr xs) =
     (if xs = [] then ''[]''
      else ''['' @ [CHR 0x0A] @ js_items (ind @ ''  '') xs @ [CHR 0x0A] @ ind @ '']'')"
| "js_text ind (JObj kvs) =
     (if filter (\<lambda>(k, v). v \<noteq> JUndefined) kvs = [] then ''{}''
      else ''{'' @ [CHR 0x0A] @ js_props (ind @ ''  '') kvs @ [CHR 0x0A] @ ind @ ''}'')"
| "js_items ind [] = []"
| "js_items ind (x # xs) =
     ind @ js_text ind x @ (if xs = [] then [] else '','' @ [CHR 0x0A] @ js_items ind xs)"
| "js_props ind [] = []"
| "js_props ind ((k, v) # kvs) =
     (if v = JUndefined then js_props ind kvs
      else ind @ quote k @ '': '' @ js_text ind v @
           (if filter (\<lambda>(k, v). v \<noteq> JUndefined) kvs = [] then []
            else '','' @ [CHR 0x0A] @ js_props ind kvs))"

definition js_stringify :: "jsnumber jsval \<Rightarrow> string" where
  "js_stringify v = js_text [] v"

text \<open>\<^verbatim>\<open>`${v}`\<close>: the string itself, the name of a literal, the digits of an integer, the
  elements of an array joined by commas.\<close>

fun js_join :: "string list \<Rightarrow> string" where
  "js_join [] = []"
| "js_join [t] = t"
| "js_join (t # u # ts) = t @ '','' @ js_join (u # ts)"

fun js_toString :: "jsnumber jsval \<Rightarrow> string" where
  "js_toString JUndefined = ''undefined''"
| "js_toString JNull = ''null''"
| "js_toString (JBool b) = (if b then ''true'' else ''false'')"
| "js_toString (JNum NaN) = ''NaN''"
| "js_toString (JNum (Integer i)) = integer_text i"
| "js_toString (JStr t) = t"
| "js_toString (JArr xs) = js_join (map (\<lambda>x. if nullish x then [] else js_toString x) xs)"
| "js_toString (JObj kvs) = ''[object Object]''"

text \<open>
  \<^verbatim>\<open>Number(v)\<close>. Of a string it reads, between white space, an optional sign and decimal
  digits, the empty string being 0; every other string is \<^verbatim>\<open>NaN\<close> here.
\<close>

definition js_stringToNumber :: "string \<Rightarrow> jsnumber" where
  "js_stringToNumber t =
     (let u = rev (skip_ws (rev (skip_ws t)));
          signed = (u \<noteq> [] \<and> (hd u = CHR ''-'' \<or> hd u = CHR ''+''));
          ds = (if signed then tl u else u)
      in if u = [] then Integer 0
         else if ds = [] then NaN
         else (case decimal 0 ds of
                 None \<Rightarrow> NaN
               | Some n \<Rightarrow> Integer (if hd u = CHR ''-'' then - n else n)))"

fun js_Number :: "jsnumber jsval \<Rightarrow> jsnumber" where
  "js_Number JUndefined = NaN"
| "js_Number JNull = Integer 0"
| "js_Number (JBool b) = Integer (if b then 1 else 0)"
| "js_Number (JNum n) = n"
| "js_Number (JStr t) = js_stringToNumber t"
| "js_Number v = js_stringToNumber (js_toString v)"

text \<open>
  The string-keyed properties of \<^verbatim>\<open>Object.prototype\<close>, \<^verbatim>\<open>Array.prototype\<close>,
  \<^verbatim>\<open>String.prototype\<close>, \<^verbatim>\<open>Number.prototype\<close> and \<^verbatim>\<open>Boolean.prototype\<close>.
\<close>

definition js_prototype_names :: "string list" where
  "js_prototype_names =
     [''constructor'', ''__proto__'', ''__defineGetter__'', ''__defineSetter__'',
      ''__lookupGetter__'', ''__lookupSetter__'', ''hasOwnProperty'', ''isPrototypeOf'',
      ''propertyIsEnumerable'', ''toLocaleString'', ''toString'', ''valueOf'',
      ''at'', ''concat'', ''copyWithin'', ''entries'', ''every'', ''fill'', ''filter'', ''find'',
      ''findIndex'', ''findLast'', ''findLastIndex'', ''flat'', ''flatMap'', ''forEach'',
      ''includes'', ''indexOf'', ''join'', ''keys'', ''lastIndexOf'', ''map'', ''pop'', ''push'',
      ''reduce'', ''reduceRight'', ''reverse'', ''shift'', ''slice'', ''some'', ''sort'',
      ''splice'', ''toReversed'', ''toSorted'', ''toSpliced'', ''unshift'', ''values'', ''with'',
      ''anchor'', ''big'', ''blink'', ''bold'', ''charAt'', ''charCodeAt'', ''codePointAt'',
      ''endsWith'', ''fixed'', ''fontcolor'', ''fontsize'', ''isWellFormed'', ''italics'',
      ''link'', ''localeCompare'', ''match'', ''matchAll'', ''normalize'', ''padEnd'',
      ''padStart'', ''repeat'', ''replace'', ''replaceAll'', ''search'', ''small'', ''split'',
      ''startsWith'', ''strike'', ''sub'', ''substr'', ''substring'', ''sup'',
      ''toLocaleLowerCase'', ''toLocaleUpperCase'', ''toLowerCase'', ''toUpperCase'',
      ''toWellFormed'', ''trim'', ''trimEnd'', ''trimLeft'', ''trimRight'', ''trimStart'',
      ''toExponential'', ''toFixed'', ''toPrecision'']"

definition js_inherits :: "string \<Rightarrow> bool" where
  "js_inherits k = (k \<in> set js_prototype_names)"

definition js_host :: "jsnumber host" where
  "js_host = \<lparr>JSON_parse = js_parse, JSON_stringify = js_stringify,
              Number = js_Number, ToString = js_toString, inherits = js_inherits\<rparr>"

section \<open>Vocabulary of the properties\<close>

text \<open>
  The keys that a row set writes, each with its coerced value, in the order of the rows:
  the rows that \<^verbatim>\<open>if (row.key)\<close> lets through.
\<close>

definition keyedValues :: "'n host \<Rightarrow> 'n NodeRow list \<Rightarrow> (string \<times> 'n jsval) list" where
  "keyedValues h rows =
     map (\<lambda>row. (the (truthyKey row), parseValueByType h (value' row) (type row)))
       (filter (\<lambda>row. truthyKey row \<noteq> None) rows)"




text \<open>
  The keys of the rows that have one; the type tag that the runtime shape of a value
  decides, if it decides one; the key and value of a row.
\<close>

definition rowKeys :: "'n NodeRow list \<Rightarrow> string list" where
  "rowKeys rows = map (\<lambda>row. the (key row)) (filter (\<lambda>row. key row \<noteq> None) rows)"

fun shapeTag :: "'n jsval \<Rightarrow> string option" where
  "shapeTag (JArr xs) = Some ''array''"
| "shapeTag (JObj kvs) = Some ''object''"
| "shapeTag (JBool b) = Some ''boolean''"
| "shapeTag (JNum n) = Some ''number''"
| "shapeTag v = None"

definition keyValue :: "'n NodeRow \<Rightarrow> string option \<times> 'n jsval" where
  "keyValue row = (key row, value' row)"

section \<open>Lists of properties\<close>

lemma set_insertIndex: "set (insertIndex i e kvs) = insert e (set kvs)"
  by (induction kvs) (auto split: option.splits)

lemma mset_insertIndex: "mset (insertIndex i e kvs) = add_mset e (mset kvs)"
  by (induction kvs) (auto split: option.splits)

lemma map_of_insertIndex:
  "map_of kvs k = None \<Longrightarrow> map_of (insertIndex i (k, v) kvs) = (map_of kvs)(k \<mapsto> v)"
proof (induction kvs)
  case Nil
  then show ?case by simp
next
  case (Cons p ps)
  then have "fst p \<noteq> k" and "map_of ps k = None" by (auto split: if_splits)
  with Cons.IH show ?case by (cases p) (auto simp: fun_eq_iff split: option.splits)
qed

lemma map_of_defineProperty: "map_of (defineProperty k v kvs) = (map_of kvs)(k \<mapsto> v)"
  by (auto simp: defineProperty_def update_conv' map_of_insertIndex fun_eq_iff map_add_def
           split: option.splits)

lemma mset_defineProperty:
  "map_of kvs k = None \<Longrightarrow> mset (defineProperty k v kvs) = add_mset (k, v) (mset kvs)"
  by (simp add: defineProperty_def mset_insertIndex split: option.splits)

lemma keys_defineProperty:
  "set (map fst (defineProperty k v kvs)) = insert k (set (map fst kvs))"
  using map_of_defineProperty [of k v kvs]
  by (metis dom_map_of_conv_image_fst dom_fun_upd list.set_map option.distinct(1))

lemma distinct_insertIndex:
  "distinct (map fst kvs) \<Longrightarrow> fst e \<notin> fst ` set kvs \<Longrightarrow> distinct (map fst (insertIndex i e kvs))"
  by (induction kvs) (auto simp: set_insertIndex split: option.splits)

lemma distinct_defineProperty:
  "distinct (map fst kvs) \<Longrightarrow> distinct (map fst (defineProperty k v kvs))"
  by (auto simp: defineProperty_def distinct_update distinct_insertIndex map_of_eq_None_iff
           split: option.splits)

lemma assignProperty_Some:
  "map_of kvs k \<noteq> None \<or> k \<noteq> ''__proto__'' \<Longrightarrow>
   assignProperty k v kvs = Some (defineProperty k v kvs)"
  by (auto simp: assignProperty_def defineProperty_def)

lemma assignProperty_None:
  "assignProperty k v kvs = None \<longleftrightarrow> map_of kvs k = None \<and> k = ''__proto__''"
  by (auto simp: assignProperty_def)

section \<open>Paths: reading, writing and reading back\<close>



lemma truthyObject_cases: "truthyObject v \<longleftrightarrow> (\<exists>kvs. v = JObj kvs) \<or> (\<exists>xs. v = JArr xs)"
  by (cases v) auto


















section \<open>Merging rows into an object\<close>


lemma keyedValues_Nil [simp]: "keyedValues h [] = []"
  by (simp add: keyedValues_def)







section \<open>The update of the target and the walk to it\<close>













lemma updatedValue_Cons:
  "updatedValue h D (s # rest) rows = navigate h (updateTarget h rows) D s rest"
  by (simp add: updatedValue_def)




section \<open>Type inference and the order of the original rows\<close>

lemma find_key_unique:
  assumes "distinct (rowKeys rows)" and "row \<in> set rows" and "key row = Some k"
  shows "find (\<lambda>r. key r = Some k) rows = Some row"
  using assms
proof (induction rows)
  case Nil
  then show ?case by simp
next
  case (Cons r rows)
  show ?case
  proof (cases "key r = Some k")
    case True
    have "r = row"
    proof (rule ccontr)
      assume "r \<noteq> row"
      with Cons.prems(2) have "row \<in> set rows" by simp
      with Cons.prems(3) have "k \<in> set (rowKeys rows)" by (force simp: rowKeys_def)
      with Cons.prems(1) True show False by (simp add: rowKeys_def)
    qed
    with True show ?thesis by simp
  next
    case False
    with Cons.prems have "row \<in> set rows" "distinct (rowKeys rows)"
      by (auto simp: rowKeys_def split: if_splits)
    with Cons.IH Cons.prems(3) False show ?thesis by simp
  qed
qed

lemma find_key_none:
  "\<forall>row\<in>set rows. key row \<noteq> Some k \<Longrightarrow> find (\<lambda>r. key r = Some k) rows = None"
  by (induction rows) auto

lemma inferType_shape:
  "inferType rows k v =
     (case shapeTag v of
        Some t \<Rightarrow> t
      | None \<Rightarrow>
          (case find (\<lambda>row. key row = Some k) rows of
             None \<Rightarrow> ''string''
           | Some row \<Rightarrow> if type row = [] then ''string'' else type row))"
  by (cases v) (simp_all add: inferType_def)

lemma rowKeys_mset: "mset rows' = mset rows \<Longrightarrow> mset (rowKeys rows') = mset (rowKeys rows)"
  unfolding rowKeys_def mset_map mset_filter by simp

lemma find_key_perm:
  assumes "mset rows' = mset rows" and "distinct (rowKeys rows)"
  shows "find (\<lambda>r. key r = Some k) rows' = find (\<lambda>r. key r = Some k) rows"
proof -
  have s: "set rows' = set rows" using assms(1) by (rule mset_eq_setD)
  have d: "distinct (rowKeys rows')"
    using rowKeys_mset [OF assms(1)] assms(2) by (metis distinct_count_atmost_1 set_mset_mset)
  show ?thesis
  proof (cases "\<exists>row\<in>set rows. key row = Some k")
    case True
    then obtain row where "row \<in> set rows" "key row = Some k" by blast
    with find_key_unique [OF assms(2)] find_key_unique [OF d] s show ?thesis by simp
  next
    case False
    with find_key_none [of rows k] find_key_none [of rows' k] s show ?thesis by simp
  qed
qed

lemma inferType_perm:
  "mset rows' = mset rows \<Longrightarrow> distinct (rowKeys rows) \<Longrightarrow>
   inferType rows' k v = inferType rows k v"
  using find_key_perm [of rows' rows k] by (simp add: inferType_shape split: option.splits)

lemma singleValue_iff: "singleValue rows \<longleftrightarrow> (\<exists>row. rows = [row] \<and> truthyKey row = None)"
  by (cases rows rule: singleValue.cases) auto

lemma singleValue_perm:
  assumes "mset rows' = mset rows" and "singleValue rows"
  shows "rows' = rows"
proof -
  from assms(2) obtain row where "rows = [row]" by (auto simp: singleValue_iff)
  with assms(1) show ?thesis by simp
qed

lemma parseEditedContent_perm:
  assumes "mset rows' = mset rows" and "distinct (rowKeys rows)"
  shows "parseEditedContent h content rows' = parseEditedContent h content rows"
proof (cases "singleValue rows \<or> singleValue rows'")
  case True
  then have "rows' = rows"
    using singleValue_perm [OF assms(1)] singleValue_perm [OF assms(1) [symmetric]] by auto
  then show ?thesis by simp
next
  case False
  then show ?thesis
    by (simp add: parseEditedContent_def inferType_perm [OF assms] split: option.splits)
qed

section \<open>The object that the rows are normalised to\<close>

lemma truthyKey_key: "truthyKey row = Some k \<Longrightarrow> key row = Some k"
  by (auto simp: truthyKey_def split: option.splits if_splits)

lemma normalizeStep_keyed:
  assumes "truthyKey row = Some k" and "k \<noteq> ''__proto__''"
    and "type row \<noteq> ''array''" and "type row \<noteq> ''object''"
  shows "normalizeStep obj row = Some (defineProperty k (value' row) obj)"
  using assms assignProperty_Some [of obj k "value' row"] by (simp add: normalizeStep_def)

lemma normalizeRows_pairs:
  assumes "\<forall>row\<in>set rows. truthyKey row \<noteq> None \<and> truthyKey row \<noteq> Some ''__proto__'' \<and>
             type row \<noteq> ''array'' \<and> type row \<noteq> ''object''"
  shows "\<exists>obj. normalizeRows acc rows = Some obj \<and>
           map_of obj = map_of acc ++ map_of (rev (map (\<lambda>row. (the (key row), value' row)) rows)) \<and>
           (distinct (map fst acc) \<longrightarrow> distinct (map fst obj)) \<and>
           (distinct (rowKeys rows) \<and> set (rowKeys rows) \<inter> fst ` set acc = {} \<longrightarrow>
              mset obj = mset acc + mset (map (\<lambda>row. (the (key row), value' row)) rows))"
  using assms
proof (induction rows arbitrary: acc)
  case Nil
  then show ?case by simp
next
  case (Cons row rows)
  from Cons.prems obtain k where k: "truthyKey row = Some k" and np: "k \<noteq> ''__proto__''"
    and ty: "type row \<noteq> ''array''" "type row \<noteq> ''object''" by auto
  have kk: "key row = Some k" using k by (rule truthyKey_key)
  let ?acc = "defineProperty k (value' row) acc"
  have step: "normalizeStep acc row = Some ?acc" using normalizeStep_keyed [OF k np ty] .
  from Cons.prems have "\<forall>row\<in>set rows. truthyKey row \<noteq> None \<and> truthyKey row \<noteq> Some ''__proto__'' \<and>
             type row \<noteq> ''array'' \<and> type row \<noteq> ''object''" by simp
  from Cons.IH [OF this, of ?acc] obtain obj where
    n: "normalizeRows ?acc rows = Some obj" and
    m: "map_of obj = map_of ?acc ++ map_of (rev (map (\<lambda>row. (the (key row), value' row)) rows))" and
    d: "distinct (map fst ?acc) \<longrightarrow> distinct (map fst obj)" and
    ms: "distinct (rowKeys rows) \<and> set (rowKeys rows) \<inter> fst ` set ?acc = {} \<longrightarrow>
              mset obj = mset ?acc + mset (map (\<lambda>row. (the (key row), value' row)) rows)"
    by blast
  have 1: "normalizeRows acc (row # rows) = Some obj" using step n by simp
  have 2: "map_of obj = map_of acc ++ map_of (rev (map (\<lambda>row. (the (key row), value' row)) (row # rows)))"
    unfolding m by (auto simp: map_of_defineProperty kk map_add_def fun_eq_iff split: option.splits)
  have 3: "distinct (map fst acc) \<longrightarrow> distinct (map fst obj)"
    using d distinct_defineProperty [of acc k "value' row"] by blast
  have 4: "mset obj = mset acc + mset (map (\<lambda>row. (the (key row), value' row)) (row # rows))"
    if "distinct (rowKeys (row # rows))" "set (rowKeys (row # rows)) \<inter> fst ` set acc = {}"
  proof -
    from that kk have dr: "distinct (rowKeys rows)" and nk: "k \<notin> set (rowKeys rows)"
      and fresh: "k \<notin> fst ` set acc" and dis: "set (rowKeys rows) \<inter> fst ` set acc = {}"
      by (auto simp: rowKeys_def)
    have "fst ` set ?acc = insert k (fst ` set acc)"
      using keys_defineProperty [of k "value' row" acc] by simp
    with nk dis have "set (rowKeys rows) \<inter> fst ` set ?acc = {}" by auto
    with ms dr have "mset obj = mset ?acc + mset (map (\<lambda>row. (the (key row), value' row)) rows)"
      by blast
    moreover have "map_of acc k = None" using fresh by (simp add: map_of_eq_None_iff)
    ultimately show ?thesis by (simp add: mset_defineProperty kk)
  qed
  from 1 2 3 4 show ?case by blast
qed

lemma map_of_Some_keys:
  "map_of (map (\<lambda>(k, v). (Some k, v)) xs) q = (case q of None \<Rightarrow> None | Some k \<Rightarrow> map_of xs k)"
  by (induction xs) (auto split: option.splits)

section \<open>Edits at the root and at an own property\<close>



section \<open>The host at the texts of the examples\<close>

lemma host_simps [simp]:
  "JSON_parse js_host = js_parse" "JSON_stringify js_host = js_stringify"
  "Number js_host = js_Number" "ToString js_host = js_toString"
  "inherits js_host = js_inherits"
  by (simp_all add: js_host_def)


lemma index_3: "\<not> special js_host (string_of_nat 3)" "arrayIndex (Idx 3) = Some 3"
  by (simp_all add: special_def js_inherits_def js_prototype_names_def string_of_nat.simps
        digit_char_def)

lemma not_index:
  "array_index_of_key ''a'' = None" "array_index_of_key ''b'' = None"
  "array_index_of_key ''c'' = None" "array_index_of_key ''x'' = None"
  by (simp_all add: array_index_of_key_def digit_value_def)

lemma index_1: "array_index_of_key ''1'' = Some 1"
  by (simp add: array_index_of_key_def digit_value_def)

lemma parse_a1: "js_parse ''{\"a\":1}'' = Some (JObj [(''a'', JNum (Integer 1))])"
  by code_simp



lemma parse_not_json: "js_parse ''{not json'' = None"
  by code_simp

lemma parse_hello: "js_parse ''hello'' = None"
  by code_simp



lemma stringToNumber_7: "js_stringToNumber ''7'' = Integer 7"
  by code_simp





lemma text_1b:
  "js_stringify (JObj [(''1'', JNum (Integer 30)), (''b'', JStr ''x'')])
     = ''{\<newline>  \"1\": 30,\<newline>  \"b\": \"x\"\<newline>}''"
  by code_simp

lemma parse_1b:
  "js_parse ''{\<newline>  \"1\": 30,\<newline>  \"b\": \"x\"\<newline>}''
     = Some (JObj [(''1'', JNum (Integer 30)), (''b'', JStr ''x'')])"
  by code_simp

lemma parse_doc6:
  "js_parse ''{\"name\":\"Al\",\"age\":31,\"tags\":[],\"note\":null}''
     = Some (JObj [(''name'', JStr ''Al''), (''age'', JNum (Integer 31)), (''tags'', JArr []),
                   (''note'', JNull)])"
  by code_simp

lemma parse_arr12: "js_parse ''[1,2]'' = Some (JArr [JNum (Integer 1), JNum (Integer 2)])"
  by code_simp

lemma parse_a_arr12:
  "js_parse ''{\"a\":[1,2]}'' = Some (JObj [(''a'', JArr [JNum (Integer 1), JNum (Integer 2)])])"
  by code_simp

lemma text_01x:
  "js_stringify (JObj [(''0'', JNum (Integer 1)), (''1'', JNum (Integer 2)), (''x'', JNum (Integer 5))])
     = ''{\<newline>  \"0\": 1,\<newline>  \"1\": 2,\<newline>  \"x\": 5\<newline>}''"
  by code_simp

lemma text_a01x:
  "js_stringify (JObj [(''a'', JObj [(''0'', JNum (Integer 1)), (''1'', JNum (Integer 2)),
                                    (''x'', JNum (Integer 5))])])
     = ''{\<newline>  \"a\": {\<newline>    \"0\": 1,\<newline>    \"1\": 2,\<newline>    \"x\": 5\<newline>  }\<newline>}''"
  by code_simp

lemma toString_5: "js_toString (JNum (Integer 5)) = ''5''"
  by code_simp

lemma toString_hello: "js_toString (JStr ''hello'') = ''hello''"
  by code_simp

lemma parse_5: "js_parse ''5'' = Some (JNum (Integer 5))"
  by code_simp

lemma parse_empty_object: "js_parse ''{}'' = Some (JObj [])"
  by code_simp

lemma indexed_12: "indexed [a, b] = [(''0'', a), (''1'', b)]"
  by (simp add: indexed_def string_of_nat.simps digit_char_def)



section \<open>The patch and the path\<close>




section \<open>Merging into an existing object\<close>




section \<open>Text that does not parse\<close>

text \<open>
  Claim C3: for an edited text that \<^verbatim>\<open>JSON.parse\<close> does not accept, \<^verbatim>\<open>parseEditedContent\<close>
  fails with \<^verbatim>\<open>Error("Invalid JSON format")\<close>, and \<^verbatim>\<open>handleSave\<close> on that text returns and
  leaves the document, the contents, the nodes, the selection and the editing flag as they
  were: all it does is show the error.
\<close>

theorem invalid_text_leaves_document:
  assumes "JSON_parse h content = None"
  shows "parseEditedContent h content originalRows = Inl (Error ''Invalid JSON format'') \<and>
         (editedContent st = content \<longrightarrow>
            (\<exists>st'. handleSave h setGraph st = Some st' \<and>
               json st' = json st \<and>
               contents st' = contents st \<and>
               nodes st' = nodes st \<and>
               selectedNode st' = selectedNode st \<and>
               isEditing st' = isEditing st \<and>
               toasts st' = toasts st @ [ToastError (Error ''Invalid JSON format'')]))"
  using assms by (simp add: parseEditedContent_def handleSave_def Let_def)

theorem invalid_text_leaves_document_witness:
  "JSON_parse js_host ''{not json'' = None \<and>
   parseEditedContent js_host ''{not json''
     [\<lparr>key = None, value' = JNum (Integer 1), type = ''number''\<rparr>]
     = Inl (Error ''Invalid JSON format'') \<and>
   (\<exists>st'. handleSave js_host (\<lambda>t. [])
           \<lparr>selectedNode = Some \<lparr>text' = [\<lparr>key = None, value' = JNum (Integer 1), type = ''number''\<rparr>],
                                  path = [Key ''a'']\<rparr>,
            nodes = [], json = ''{\"a\":1}'', contents = ''{\"a\":1}'', isEditing = True,
            editedContent = ''{not json'', toasts = []\<rparr> = Some st' \<and>
      json st' = ''{\"a\":1}'' \<and> contents st' = ''{\"a\":1}'' \<and> isEditing st' \<and>
      toasts st' = [ToastError (Error ''Invalid JSON format'')])"
proof -
  have p: "JSON_parse js_host ''{not json'' = None" by (simp add: parse_not_json)
  let ?st = "\<lparr>selectedNode = Some \<lparr>text' = [\<lparr>key = None, value' = JNum (Integer 1), type = ''number''\<rparr>],
                                  path = [Key ''a'']\<rparr>,
            nodes = [], json = ''{\"a\":1}'', contents = ''{\"a\":1}'', isEditing = True,
            editedContent = ''{not json'', toasts = []\<rparr> :: jsnumber modal"
  from invalid_text_leaves_document [OF p, of "[\<lparr>key = None, value' = JNum (Integer 1), type = ''number''\<rparr>]" ?st "\<lambda>t. []"] p
  show ?thesis by auto
qed

section \<open>A single value written and read back\<close>




section \<open>Normalising and parsing back\<close>

text \<open>
  Claim C5 says that \<^verbatim>\<open>parseEditedContent(normalizeNodeData(rows), rows)\<close> gives the keys and
  values of \<open>rows\<close> back for every row set with scalar types. What \<^verbatim>\<open>normalizeNodeData\<close>
  writes is: for no rows the text \<^verbatim>\<open>{}\<close>; for one unkeyed row the template literal of its
  value \<open>V\<close>; for rows that all carry a non-empty key other than \<^verbatim>\<open>__proto__\<close> and a scalar
  type, the serialisation of the object \<open>obj\<close> that the rows are assigned to one after the
  other. Where the host reads that text back (\<^verbatim>\<open>{}\<close> as the empty object, the literal as
  \<open>V\<close>, the serialisation as \<open>obj\<close>), \<^verbatim>\<open>parseEditedContent\<close> returns: no rows; the one row;
  rows with one row for each key, holding the value of the last row of that key, so that
  for distinct keys the keys and values returned are those of \<open>rows\<close>, each once. Their
  order is that of the host's objects, not that of the rows.
\<close>

theorem parse_after_normalize:
  "(rows = [] \<longrightarrow>
      normalizeNodeData h rows = Some ''{}'' \<and>
      (JSON_parse h ''{}'' = Some (JObj []) \<longrightarrow> parseEditedContent h ''{}'' rows = Inr rows)) \<and>
   (\<forall>row. rows = [row] \<and> truthyKey row = None \<longrightarrow>
      normalizeNodeData h rows = Some (ToString h (value' row)) \<and>
      (JSON_parse h (ToString h (value' row)) = Some (value' row) \<longrightarrow>
         parseEditedContent h (ToString h (value' row)) rows = Inr rows)) \<and>
   (rows \<noteq> [] \<and>
    (\<forall>row\<in>set rows. truthyKey row \<noteq> None \<and> truthyKey row \<noteq> Some ''__proto__'' \<and>
                     type row \<noteq> ''array'' \<and> type row \<noteq> ''object'') \<longrightarrow>
      (\<exists>obj. normalizeRows [] rows = Some obj \<and>
             normalizeNodeData h rows = Some (JSON_stringify h (JObj obj)) \<and>
             (JSON_parse h (JSON_stringify h (JObj obj)) = Some (JObj obj) \<longrightarrow>
                (\<exists>rows'. parseEditedContent h (JSON_stringify h (JObj obj)) rows = Inr rows' \<and>
                   distinct (map fst (map keyValue rows')) \<and>
                   map_of (map keyValue rows') = map_of (rev (map keyValue rows)) \<and>
                   (distinct (rowKeys rows) \<longrightarrow>
                      mset (map keyValue rows') = mset (map keyValue rows))))))"
proof -
  have empty: "normalizeNodeData h [] = Some ''{}'' \<and>
      (JSON_parse h ''{}'' = Some (JObj []) \<longrightarrow> parseEditedContent h ''{}'' [] = Inr [])"
    by (simp add: normalizeNodeData_def parseEditedContent_def)
  have single: "normalizeNodeData h [row] = Some (ToString h (value' row)) \<and>
      (JSON_parse h (ToString h (value' row)) = Some (value' row) \<longrightarrow>
         parseEditedContent h (ToString h (value' row)) [row] = Inr [row])"
    if "truthyKey row = None" for row
    using that by (simp add: normalizeNodeData_def parseEditedContent_def)
  have keyed: "\<exists>obj. normalizeRows [] rows = Some obj \<and>
             normalizeNodeData h rows = Some (JSON_stringify h (JObj obj)) \<and>
             (JSON_parse h (JSON_stringify h (JObj obj)) = Some (JObj obj) \<longrightarrow>
                (\<exists>rows'. parseEditedContent h (JSON_stringify h (JObj obj)) rows = Inr rows' \<and>
                   distinct (map fst (map keyValue rows')) \<and>
                   map_of (map keyValue rows') = map_of (rev (map keyValue rows)) \<and>
                   (distinct (rowKeys rows) \<longrightarrow>
                      mset (map keyValue rows') = mset (map keyValue rows))))"
    if ne: "rows \<noteq> []" and
      a: "\<forall>row\<in>set rows. truthyKey row \<noteq> None \<and> truthyKey row \<noteq> Some ''__proto__'' \<and>
                     type row \<noteq> ''array'' \<and> type row \<noteq> ''object''"
  proof -
    let ?pair = "\<lambda>row. (the (key row), value' row)"
    let ?opt = "\<lambda>(k, v). (Some k, v)"
    from normalizeRows_pairs [OF a, of "[]"] obtain obj where
      n: "normalizeRows [] rows = Some obj" and
      m: "map_of obj = map_of (rev (map ?pair rows))" and
      d: "distinct (map fst obj)" and
      ms: "distinct (rowKeys rows) \<longrightarrow> mset obj = mset (map ?pair rows)"
      by auto
    have ns: "\<not> singleValue rows"
      using a ne by (auto simp: singleValue_iff)
    have t: "normalizeNodeData h rows = Some (JSON_stringify h (JObj obj))"
      using ne ns n by (simp add: normalizeNodeData_def)
    have kv: "keyValue row = ?opt (?pair row)" if "row \<in> set rows" for row
    proof -
      from a that obtain k where "truthyKey row = Some k" by auto
      then have "key row = Some k" by (rule truthyKey_key)
      then show ?thesis by (simp add: keyValue_def)
    qed
    then have kvs: "map keyValue rows = map ?opt (map ?pair rows)" by simp
    let ?rows' = "map (\<lambda>(k, v). \<lparr>key = Some k, value' = v, type = inferType rows k v\<rparr>) obj"
    have kv': "map keyValue ?rows' = map ?opt obj"
      by (simp add: keyValue_def case_prod_unfold)
    have 1: "distinct (map fst (map keyValue ?rows'))"
    proof -
      have e: "map fst (map keyValue ?rows') = map Some (map fst obj)"
        by (induction obj) (auto simp: keyValue_def)
      have "distinct (map Some (map fst obj))"
        using d by (subst distinct_map) (simp add: inj_on_def)
      then show ?thesis unfolding e .
    qed
    have 2: "map_of (map keyValue ?rows') = map_of (rev (map keyValue rows))"
    proof
      fix q
      have "rev (map keyValue rows) = map ?opt (rev (map ?pair rows))"
        unfolding kvs by (simp only: rev_map)
      moreover have "map_of (map ?opt obj) q = map_of (map ?opt (rev (map ?pair rows))) q"
        by (simp only: map_of_Some_keys m)
      ultimately show "map_of (map keyValue ?rows') q = map_of (rev (map keyValue rows)) q"
        unfolding kv' by simp
    qed
    have 3: "mset (map keyValue ?rows') = mset (map keyValue rows)" if "distinct (rowKeys rows)"
    proof -
      from ms that have "mset obj = mset (map ?pair rows)" by simp
      then have "mset (map ?opt obj) = mset (map ?opt (map ?pair rows))"
        unfolding mset_map by simp
      then show ?thesis unfolding kv' kvs .
    qed
    have "parseEditedContent h (JSON_stringify h (JObj obj)) rows = Inr ?rows'"
      if "JSON_parse h (JSON_stringify h (JObj obj)) = Some (JObj obj)"
      using that ns by (simp add: parseEditedContent_def)
    with n t 1 2 3 show ?thesis by blast
  qed
  from empty single keyed show ?thesis by blast
qed

text \<open>
  One unkeyed row holding the string \<^verbatim>\<open>hello\<close> is normalised to the text \<^verbatim>\<open>hello\<close>, without
  quotes, which \<^verbatim>\<open>JSON.parse\<close> refuses.
\<close>

theorem parse_after_normalize_bare_string:
  "normalizeNodeData js_host [\<lparr>key = None, value' = JStr ''hello'', type = ''string''\<rparr>]
     = Some ''hello'' \<and>
   parseEditedContent js_host ''hello''
     [\<lparr>key = None, value' = JStr ''hello'', type = ''string''\<rparr>]
     = Inl (Error ''Invalid JSON format'')"
  by (simp add: normalizeNodeData_def truthyKey_def parseEditedContent_def parse_hello
        toString_hello)

theorem parse_after_normalize_witness:
  "normalizeNodeData js_host
     [\<lparr>key = Some ''b'', value' = JStr ''x'', type = ''string''\<rparr>,
      \<lparr>key = Some ''1'', value' = JNum (Integer 30), type = ''number''\<rparr>]
     = Some ''{\<newline>  \"1\": 30,\<newline>  \"b\": \"x\"\<newline>}'' \<and>
   JSON_parse js_host ''{\<newline>  \"1\": 30,\<newline>  \"b\": \"x\"\<newline>}''
     = Some (JObj [(''1'', JNum (Integer 30)), (''b'', JStr ''x'')]) \<and>
   (\<exists>rows'. parseEditedContent js_host ''{\<newline>  \"1\": 30,\<newline>  \"b\": \"x\"\<newline>}''
       [\<lparr>key = Some ''b'', value' = JStr ''x'', type = ''string''\<rparr>,
        \<lparr>key = Some ''1'', value' = JNum (Integer 30), type = ''number''\<rparr>] = Inr rows' \<and>
      mset (map keyValue rows') = {#(Some ''b'', JStr ''x''), (Some ''1'', JNum (Integer 30))#}) \<and>
   parseEditedContent js_host ''{\<newline>  \"1\": 30,\<newline>  \"b\": \"x\"\<newline>}''
       [\<lparr>key = Some ''b'', value' = JStr ''x'', type = ''string''\<rparr>,
        \<lparr>key = Some ''1'', value' = JNum (Integer 30), type = ''number''\<rparr>]
     = Inr [\<lparr>key = Some ''1'', value' = JNum (Integer 30), type = ''number''\<rparr>,
            \<lparr>key = Some ''b'', value' = JStr ''x'', type = ''string''\<rparr>] \<and>
   JSON_parse js_host (ToString js_host (JNum (Integer 5))) = Some (JNum (Integer 5)) \<and>
   parseEditedContent js_host (ToString js_host (JNum (Integer 5)))
       [\<lparr>key = None, value' = JNum (Integer 5), type = ''number''\<rparr>]
     = Inr [\<lparr>key = None, value' = JNum (Integer 5), type = ''number''\<rparr>]"
proof -
  let ?rows = "[\<lparr>key = Some ''b'', value' = JStr ''x'', type = ''string''\<rparr>,
                \<lparr>key = Some ''1'', value' = JNum (Integer 30), type = ''number''\<rparr>] :: jsnumber NodeRow list"
  let ?obj = "[(''1'', JNum (Integer 30)), (''b'', JStr ''x'')] :: (string \<times> jsnumber jsval) list"
  let ?text = "''{\<newline>  \"1\": 30,\<newline>  \"b\": \"x\"\<newline>}''"
  let ?five = "\<lparr>key = None, value' = JNum (Integer 5), type = ''number''\<rparr> :: jsnumber NodeRow"
  have f: "normalizeRows [] ?rows = Some ?obj"
    by (simp add: normalizeStep_def truthyKey_def assignProperty_def defineProperty_def
          not_index index_1)
  have a: "?rows \<noteq> [] \<and>
           (\<forall>row\<in>set ?rows. truthyKey row \<noteq> None \<and> truthyKey row \<noteq> Some ''__proto__'' \<and>
                            type row \<noteq> ''array'' \<and> type row \<noteq> ''object'')"
    by (simp add: truthyKey_def)
  have t: "JSON_stringify js_host (JObj ?obj) = ?text" by (simp add: text_1b)
  have p: "JSON_parse js_host ?text = Some (JObj ?obj)" by (simp add: parse_1b)
  have d: "distinct (rowKeys ?rows)" by (simp add: rowKeys_def)
  have k5: "truthyKey ?five = None" by (simp add: truthyKey_def)
  have p5: "JSON_parse js_host (ToString js_host (JNum (Integer 5))) = Some (JNum (Integer 5))"
    by (simp only: host_simps toString_5 parse_5)
  from parse_after_normalize [of ?rows js_host] a obtain obj where
    o: "normalizeRows [] ?rows = Some obj" and
    n: "normalizeNodeData js_host ?rows = Some (JSON_stringify js_host (JObj obj))" and
    r: "JSON_parse js_host (JSON_stringify js_host (JObj obj)) = Some (JObj obj) \<longrightarrow>
          (\<exists>rows'. parseEditedContent js_host (JSON_stringify js_host (JObj obj)) ?rows = Inr rows' \<and>
             distinct (map fst (map keyValue rows')) \<and>
             map_of (map keyValue rows') = map_of (rev (map keyValue ?rows)) \<and>
             (distinct (rowKeys ?rows) \<longrightarrow> mset (map keyValue rows') = mset (map keyValue ?rows)))"
    by blast
  from o f have obj: "obj = ?obj" by simp
  from n have 1: "normalizeNodeData js_host ?rows = Some ?text" unfolding obj t .
  from r p d obtain rows' where
    "parseEditedContent js_host ?text ?rows = Inr rows'"
    "mset (map keyValue rows') = mset (map keyValue ?rows)"
    unfolding obj t by blast
  then have 2: "\<exists>rows'. parseEditedContent js_host ?text ?rows = Inr rows' \<and>
      mset (map keyValue rows') = {#(Some ''b'', JStr ''x''), (Some ''1'', JNum (Integer 30))#}"
    by (simp add: keyValue_def)
  have 3: "parseEditedContent js_host ?text ?rows
     = Inr [\<lparr>key = Some ''1'', value' = JNum (Integer 30), type = ''number''\<rparr>,
            \<lparr>key = Some ''b'', value' = JStr ''x'', type = ''string''\<rparr>]"
    by (simp add: parseEditedContent_def parse_1b inferType_def)
  have 4: "parseEditedContent js_host (ToString js_host (JNum (Integer 5))) [?five] = Inr [?five]"
    using parse_after_normalize [of "[?five]" js_host] k5 p5 by simp
  from 1 p 2 3 p5 4 show ?thesis by blast
qed

section \<open>Rows from an edited object\<close>

text \<open>
  Claim C6 says that every text that parses to an object gives one row for each of its
  keys. That is so unless the original rows are one single unkeyed row, which takes the
  parsed value whole. Otherwise the rows are the entries of the object in their order, each
  with its key, its value and the tag \<open>inferType\<close>: the tag of the shape for an array, an
  object, a boolean and a number; for any other value the type of the original row of that
  key if there is one (and its type is not empty), else \<^verbatim>\<open>string\<close>. With distinct keys the
  result is the same for every order of the original rows.
\<close>

theorem parseEditedContent_object_rows:
  assumes "JSON_parse h content = Some (JObj kvs)" and "\<not> singleValue originalRows"
  shows "parseEditedContent h content originalRows =
           Inr (map (\<lambda>(k, v). \<lparr>key = Some k, value' = v, type = inferType originalRows k v\<rparr>) kvs) \<and>
         (\<forall>k v t. shapeTag v = Some t \<longrightarrow> inferType originalRows k v = t) \<and>
         (\<forall>k v row. shapeTag v = None \<and> distinct (rowKeys originalRows) \<and>
                     row \<in> set originalRows \<and> key row = Some k \<longrightarrow>
                     inferType originalRows k v = (if type row = [] then ''string'' else type row)) \<and>
         (\<forall>k v. shapeTag v = None \<and> (\<forall>row\<in>set originalRows. key row \<noteq> Some k) \<longrightarrow>
                 inferType originalRows k v = ''string'') \<and>
         (\<forall>rows'. mset rows' = mset originalRows \<and> distinct (rowKeys originalRows) \<longrightarrow>
                  parseEditedContent h content rows' = parseEditedContent h content originalRows)"
proof -
  have "parseEditedContent h content originalRows =
           Inr (map (\<lambda>(k, v). \<lparr>key = Some k, value' = v, type = inferType originalRows k v\<rparr>) kvs)"
    using assms by (simp add: parseEditedContent_def)
  moreover have "\<forall>k v t. shapeTag v = Some t \<longrightarrow> inferType originalRows k v = t"
    by (simp add: inferType_shape)
  moreover have "\<forall>k v row. shapeTag v = None \<and> distinct (rowKeys originalRows) \<and>
                     row \<in> set originalRows \<and> key row = Some k \<longrightarrow>
                     inferType originalRows k v = (if type row = [] then ''string'' else type row)"
    using find_key_unique [of originalRows] by (auto simp: inferType_shape)
  moreover have "\<forall>k v. shapeTag v = None \<and> (\<forall>row\<in>set originalRows. key row \<noteq> Some k) \<longrightarrow>
                 inferType originalRows k v = ''string''"
    by (simp add: inferType_shape find_key_none)
  moreover have "\<forall>rows'. mset rows' = mset originalRows \<and> distinct (rowKeys originalRows) \<longrightarrow>
                  parseEditedContent h content rows' = parseEditedContent h content originalRows"
    using parseEditedContent_perm by blast
  ultimately show ?thesis by blast
qed

text \<open>
  With the one unkeyed row of a number as the original rows, the text \<^verbatim>\<open>{"a":1}\<close> gives one
  row, without a key, that holds the object.
\<close>

theorem parseEditedContent_single_original_row:
  "JSON_parse js_host ''{\"a\":1}'' = Some (JObj [(''a'', JNum (Integer 1))]) \<and>
   parseEditedContent js_host ''{\"a\":1}'' [\<lparr>key = None, value' = JNum (Integer 1), type = ''number''\<rparr>]
     = Inr [\<lparr>key = None, value' = JObj [(''a'', JNum (Integer 1))], type = ''number''\<rparr>]"
  by (simp add: parseEditedContent_def parse_a1 truthyKey_def)

theorem parseEditedContent_object_rows_witness:
  "JSON_parse js_host ''{\"name\":\"Al\",\"age\":31,\"tags\":[],\"note\":null}''
     = Some (JObj [(''name'', JStr ''Al''), (''age'', JNum (Integer 31)), (''tags'', JArr []),
                   (''note'', JNull)]) \<and>
   \<not> singleValue [\<lparr>key = Some ''age'', value' = JStr ''30'', type = ''string''\<rparr>,
                   \<lparr>key = Some ''note'', value' = JStr ''n'', type = ''memo''\<rparr> :: jsnumber NodeRow] \<and>
   parseEditedContent js_host ''{\"name\":\"Al\",\"age\":31,\"tags\":[],\"note\":null}''
     [\<lparr>key = Some ''age'', value' = JStr ''30'', type = ''string''\<rparr>,
      \<lparr>key = Some ''note'', value' = JStr ''n'', type = ''memo''\<rparr>]
     = Inr [\<lparr>key = Some ''name'', value' = JStr ''Al'', type = ''string''\<rparr>,
            \<lparr>key = Some ''age'', value' = JNum (Integer 31), type = ''number''\<rparr>,
            \<lparr>key = Some ''tags'', value' = JArr [], type = ''array''\<rparr>,
            \<lparr>key = Some ''note'', value' = JNull, type = ''memo''\<rparr>] \<and>
   parseEditedContent js_host ''{\"name\":\"Al\",\"age\":31,\"tags\":[],\"note\":null}''
     [\<lparr>key = Some ''note'', value' = JStr ''n'', type = ''memo''\<rparr>,
      \<lparr>key = Some ''age'', value' = JStr ''30'', type = ''string''\<rparr>]
     = parseEditedContent js_host ''{\"name\":\"Al\",\"age\":31,\"tags\":[],\"note\":null}''
     [\<lparr>key = Some ''age'', value' = JStr ''30'', type = ''string''\<rparr>,
      \<lparr>key = Some ''note'', value' = JStr ''n'', type = ''memo''\<rparr>]"
proof -
  let ?doc = "''{\"name\":\"Al\",\"age\":31,\"tags\":[],\"note\":null}''"
  let ?rows = "[\<lparr>key = Some ''age'', value' = JStr ''30'', type = ''string''\<rparr>,
                \<lparr>key = Some ''note'', value' = JStr ''n'', type = ''memo''\<rparr> :: jsnumber NodeRow]"
  let ?rows' = "[\<lparr>key = Some ''note'', value' = JStr ''n'', type = ''memo''\<rparr>,
                \<lparr>key = Some ''age'', value' = JStr ''30'', type = ''string''\<rparr> :: jsnumber NodeRow]"
  have p: "JSON_parse js_host ?doc
     = Some (JObj [(''name'', JStr ''Al''), (''age'', JNum (Integer 31)), (''tags'', JArr []),
                   (''note'', JNull)])" by (simp add: parse_doc6)
  have s: "\<not> singleValue ?rows" by simp
  have m: "mset ?rows' = mset ?rows \<and> distinct (rowKeys ?rows)" by (simp add: rowKeys_def)
  note t = parseEditedContent_object_rows [OF p s]
  from t have "parseEditedContent js_host ?doc ?rows' = parseEditedContent js_host ?doc ?rows"
    using m by blast
  moreover from t have "parseEditedContent js_host ?doc ?rows
     = Inr [\<lparr>key = Some ''name'', value' = JStr ''Al'', type = ''string''\<rparr>,
            \<lparr>key = Some ''age'', value' = JNum (Integer 31), type = ''number''\<rparr>,
            \<lparr>key = Some ''tags'', value' = JArr [], type = ''array''\<rparr>,
            \<lparr>key = Some ''note'', value' = JNull, type = ''memo''\<rparr>]"
    by (simp add: inferType_def)
  ultimately show ?thesis using p s by simp
qed

section \<open>Coercion by type\<close>

text \<open>
  Claim C7, the cases of \<^verbatim>\<open>parseValueByType\<close> in the order of its \<^verbatim>\<open>return\<close>s: \<^verbatim>\<open>null\<close> and
  the string \<^verbatim>\<open>"null"\<close> give \<^verbatim>\<open>null\<close>; otherwise the type \<^verbatim>\<open>boolean\<close> gives whether the
  value is \<^verbatim>\<open>true\<close>, \<^verbatim>\<open>"true"\<close> or \<^verbatim>\<open>"1"\<close>; otherwise the type \<^verbatim>\<open>number\<close> gives
  \<^verbatim>\<open>Number(v)\<close>; otherwise, for \<^verbatim>\<open>object\<close>, \<^verbatim>\<open>array\<close> and every other type, the value is
  returned as it is.
\<close>

theorem parseValueByType_cases:
  "(v = JNull \<or> v = JStr ''null'' \<longrightarrow> parseValueByType h v t = JNull) \<and>
   (v \<noteq> JNull \<and> v \<noteq> JStr ''null'' \<and> t = ''boolean'' \<longrightarrow>
      parseValueByType h v t = JBool (v = JBool True \<or> v = JStr ''true'' \<or> v = JStr ''1'')) \<and>
   (v \<noteq> JNull \<and> v \<noteq> JStr ''null'' \<and> t = ''number'' \<longrightarrow>
      parseValueByType h v t = JNum (Number h v)) \<and>
   (v \<noteq> JNull \<and> v \<noteq> JStr ''null'' \<and> (t = ''object'' \<or> t = ''array'') \<longrightarrow>
      parseValueByType h v t = v) \<and>
   (v \<noteq> JNull \<and> v \<noteq> JStr ''null'' \<and> t \<noteq> ''boolean'' \<and> t \<noteq> ''number'' \<longrightarrow>
      parseValueByType h v t = v)"
  by (simp add: parseValueByType_def)

theorem parseValueByType_cases_witness:
  "parseValueByType js_host (JStr ''null'') ''string'' = JNull \<and>
   parseValueByType js_host (JStr ''1'') ''boolean'' = JBool True \<and>
   parseValueByType js_host (JStr ''no'') ''boolean'' = JBool False \<and>
   parseValueByType js_host (JStr ''7'') ''number'' = JNum (Integer 7) \<and>
   parseValueByType js_host (JArr []) ''array'' = JArr [] \<and>
   parseValueByType js_host (JStr ''x'') ''string'' = JStr ''x''"
  using parseValueByType_cases [where v = "JStr ''null''" and h = js_host and t = "''string''"]
    parseValueByType_cases [where v = "JStr ''1''" and h = js_host and t = "''boolean''"]
    parseValueByType_cases [where v = "JStr ''no''" and h = js_host and t = "''boolean''"]
    parseValueByType_cases [where v = "JStr ''7''" and h = js_host and t = "''number''"]
    parseValueByType_cases [where v = "JArr []" and h = js_host and t = "''array''"]
    parseValueByType_cases [where v = "JStr ''x''" and h = js_host and t = "''string''"]
  by (simp add: stringToNumber_7)

text \<open>
  Claim C10: \<^verbatim>\<open>null\<close> and the string \<^verbatim>\<open>"null"\<close> are coerced to \<^verbatim>\<open>null\<close> whatever the type, in
  this file and in its earlier snapshot; so a row of type \<^verbatim>\<open>string\<close> whose value is the
  text \<^verbatim>\<open>null\<close> stores \<^verbatim>\<open>null\<close> under its key: under every non-empty key, \<^verbatim>\<open>__proto__\<close>
  included where the object has that key (where it has not, the assignment of \<^verbatim>\<open>null\<close>
  goes to the setter of the prototype and stores nothing).
\<close>

theorem parseValueByType_null:
  "parseValueByType h JNull t = JNull \<and>
   parseValueByType h (JStr ''null'') t = JNull \<and>
   parseValueByType_earlier h JNull t = JNull \<and>
   parseValueByType_earlier h (JStr ''null'') t = JNull \<and>
   (k \<noteq> [] \<and> (k \<noteq> ''__proto__'' \<or> map_of obj k \<noteq> None) \<longrightarrow>
      (\<exists>obj'. mergeRows h obj [\<lparr>key = Some k, value' = JStr ''null'', type = ''string''\<rparr>]
                 = Some obj' \<and>
              map_of obj' k = Some JNull))"
  by (auto simp: parseValueByType_def parseValueByType_earlier_def mergeStep_def
        truthyKey_def assignProperty_def map_of_defineProperty update_conv')

theorem parseValueByType_null_witness:
  "parseValueByType js_host JNull ''string'' = JNull \<and>
   parseValueByType js_host (JStr ''null'') ''string'' = JNull \<and>
   parseValueByType_earlier js_host (JStr ''null'') ''string'' = JNull \<and>
   (\<exists>obj'. mergeRows js_host [(''name'', JStr ''Al'')]
             [\<lparr>key = Some ''name'', value' = JStr ''null'', type = ''string''\<rparr>] = Some obj' \<and>
           map_of obj' ''name'' = Some JNull)"
  using parseValueByType_null [where h = js_host and t = "''string''" and k = "''name''"
      and obj = "[(''name'', JStr ''Al'')]"]
  by simp

section \<open>Edits over a value that is no object\<close>

text \<open>
  Claim C8 says that at the empty path a single unkeyed row replaces the whole document
  by its value, and that a keyed row set is merged into the keys of the root when the
  root is an object, and into an empty object when it is not. The replacement is as
  claimed, and so is the merge at a root that is an object, a scalar or \<^verbatim>\<open>null\<close> (lemma
  \<open>updateJson_root\<close>). A root that is an array is no object for the claim, but it is one for
  the code: \<^verbatim>\<open>parsed && typeof parsed === "object"\<close> is true of an array, and the spread
  copies its elements under the keys \<^verbatim>\<open>0\<close>, \<^verbatim>\<open>1\<close>, ..., so that \<^verbatim>\<open>[1,2]\<close> patched with the
  row \<^verbatim>\<open>x = 5\<close> becomes an object of three keys, not \<^verbatim>\<open>{"x":5}\<close>.
\<close>

theorem root_merge_over_array:
  "JSON_parse js_host ''[1,2]'' = Some (JArr [JNum (Integer 1), JNum (Integer 2)]) \<and>
   updateJsonWithNodeValue js_host ''[1,2]'' []
     [\<lparr>key = Some ''x'', value' = JNum (Integer 5), type = ''number''\<rparr>]
     = Value ''{\<newline>  \"0\": 1,\<newline>  \"1\": 2,\<newline>  \"x\": 5\<newline>}''"
proof -
  have "updatedValue js_host (JArr [JNum (Integer 1), JNum (Integer 2)]) []
          [\<lparr>key = Some ''x'', value' = JNum (Integer 5), type = ''number''\<rparr>]
        = Value (JObj [(''0'', JNum (Integer 1)), (''1'', JNum (Integer 2)), (''x'', JNum (Integer 5))])"
    by (simp add: updatedValue_def spread_def indexed_12 mergeStep_def truthyKey_def
          parseValueByType_def assignProperty_def defineProperty_def not_index)
  then show ?thesis
    by (simp add: updateJsonWithNodeValue_def parse_arr12 text_01x)
qed

text \<open>
  Claim C9 says that a keyed row set written over an array holds the rows and nothing of
  the array. The same test lets the array through: the document \<^verbatim>\<open>{"a":[1,2]}\<close> patched
  at \<^verbatim>\<open>a\<close> with the row \<^verbatim>\<open>x = 5\<close> keeps both elements of the array, as keys of an object.
  Over a scalar or \<^verbatim>\<open>null\<close> the merge does start from the empty object (lemma
  \<open>updateJson_merge_at\<close>).
\<close>

theorem merge_over_array_keeps_elements:
  "updateJsonWithNodeValue js_host ''{\"a\":[1,2]}'' [Key ''a'']
     [\<lparr>key = Some ''x'', value' = JNum (Integer 5), type = ''number''\<rparr>]
     = Value ''{\<newline>  \"a\": {\<newline>    \"0\": 1,\<newline>    \"1\": 2,\<newline>    \"x\": 5\<newline>  }\<newline>}''"
proof -
  have "updatedValue js_host (JObj [(''a'', JArr [JNum (Integer 1), JNum (Integer 2)])]) [Key ''a'']
          [\<lparr>key = Some ''x'', value' = JNum (Integer 5), type = ''number''\<rparr>]
        = Value (JObj [(''a'', JObj [(''0'', JNum (Integer 1)), (''1'', JNum (Integer 2)),
                                   (''x'', JNum (Integer 5))])])"
    by (simp add: updatedValue_def updateTarget_def getProp_def readProp_def nullish_def
          existingOrEmpty_def spread_def indexed_12 mergeStep_def truthyKey_def
          parseValueByType_def assignProperty_def defineProperty_def not_index)
  then show ?thesis
    by (simp add: updateJsonWithNodeValue_def parse_a_arr12 text_a01x)
qed

end
